theory Spec2Isabelle
  imports Complex_Main
begin

section \<open>The game state machine of \<^verbatim>\<open>src/src/game.js\<close>\<close>

text \<open>
  The class \<^verbatim>\<open>Game\<close> is an immutable snapshot; \<^verbatim>\<open>tick\<close>, \<^verbatim>\<open>pause\<close> and
  \<^verbatim>\<open>mute\<close> return a new snapshot. Three collaborators are imported from modules
  that are not part of the sources at hand (\<^verbatim>\<open>./tetrion\<close>, \<^verbatim>\<open>./progress\<close>,
  \<^verbatim>\<open>./sound\<close>); the first two are parameters of the model, the third is the list of
  cues handed to \<^verbatim>\<open>play\<close>, returned next to the new snapshot.

  Numbers: \<^verbatim>\<open>time\<close>, \<^verbatim>\<open>delta\<close> and the three timers are integers (milliseconds);
  JavaScript's doubles are exact on them up to \<open>2^53\<close>, and the model uses \<^typ>\<open>int\<close>.
\<close>

subsection \<open>Data\<close>

text \<open>The field \<^verbatim>\<open>state\<close> holds one of four string constants.\<close>

datatype state = Spawning | Idle | Locking | Finished

text \<open>
  A reward is an object of which the game reads the property \<^verbatim>\<open>lines\<close> only; its other
  fields are the extension of the record.
\<close>

record reward =
  lines :: int

text \<open>The object \<^verbatim>\<open>{ tetrion, reward }\<close> returned by the operations of a tetrion.\<close>

record ('b, 'r) result =
  res_tetrion :: 'b
  res_reward :: "'r reward_scheme"

text \<open>
  The class \<^verbatim>\<open>Tetrion\<close>, as far as the game uses it. Values of \<open>'b\<close> are tetrion
  objects, and equality on \<open>'b\<close> is the identity \<^verbatim>\<open>===\<close> of the source: a tetrion
  that returns itself reports that nothing changed.

  The game calls three methods by name, so every tetrion has them: \<^verbatim>\<open>spawn\<close> and
  \<^verbatim>\<open>moveDown\<close>, called without an argument, and \<^verbatim>\<open>lock\<close>, called with the level.
  The command branch calls \<^verbatim>\<open>tetrion[command](level)\<close>, which reaches the same three
  methods under their names, now with the level as argument. \<open>spawn_method\<close> and
  \<open>moveDown_method\<close> therefore take the argument as an option, \<open>None\<close> for the call
  without one. Every method returns an object with the fields \<^verbatim>\<open>tetrion\<close> and
  \<^verbatim>\<open>reward\<close>; the spawn branch reads the first only.

  \<open>others\<close> is the lookup of every other property name: \<open>Some m\<close> when the property
  is a function that returns a result object, \<open>None\<close> when there is no such property or
  it cannot be called that way, in which case the dispatch raises a \<^verbatim>\<open>TypeError\<close>.
  \<open>fallingPiece\<close> is the truth value of the property \<^verbatim>\<open>fallingPiece\<close> (an object
  or \<^verbatim>\<open>null\<close>).
\<close>

record ('b, 'r) tetrion_class =
  newTetrion :: 'b
  spawn_method :: "'b \<Rightarrow> int option \<Rightarrow> ('b, 'r) result"
  moveDown_method :: "'b \<Rightarrow> int option \<Rightarrow> ('b, 'r) result"
  lock :: "'b \<Rightarrow> int \<Rightarrow> ('b, 'r) result"
  others :: "string \<Rightarrow> ('b \<Rightarrow> int \<Rightarrow> ('b, 'r) result) option"
  fallingPiece :: "'b \<Rightarrow> bool"
  canMoveDown :: "'b \<Rightarrow> bool"

text \<open>The field \<^verbatim>\<open>tetrion\<close> of the result of \<^verbatim>\<open>this.tetrion.spawn()\<close>.\<close>

definition spawn :: "('b, 'r) tetrion_class \<Rightarrow> 'b \<Rightarrow> 'b" where
  "spawn T b = res_tetrion (spawn_method T b None)"

text \<open>The call \<^verbatim>\<open>this.tetrion.moveDown()\<close>.\<close>

definition moveDown :: "('b, 'r) tetrion_class \<Rightarrow> 'b \<Rightarrow> ('b, 'r) result" where
  "moveDown T b = moveDown_method T b None"

text \<open>
  The property lookup \<^verbatim>\<open>this.tetrion[command]\<close>, as a function of the tetrion and the
  level it is called with; \<open>None\<close> when the call raises a \<^verbatim>\<open>TypeError\<close>.
\<close>

definition methods ::
  "('b, 'r) tetrion_class \<Rightarrow> string \<Rightarrow> ('b \<Rightarrow> int \<Rightarrow> ('b, 'r) result) option" where
  "methods T c =
     (if c = ''spawn'' then Some (\<lambda>b l. spawn_method T b (Some l))
      else if c = ''moveDown'' then Some (\<lambda>b l. moveDown_method T b (Some l))
      else if c = ''lock'' then Some (lock T)
      else others T c)"

text \<open>The class \<^verbatim>\<open>Progress\<close>: its constructor, \<^verbatim>\<open>add(reward)\<close> and the property \<^verbatim>\<open>level\<close>.\<close>

record ('p, 'r) progress_class =
  newProgress :: 'p
  add :: "'p \<Rightarrow> 'r reward_scheme \<Rightarrow> 'p"
  progress_level :: "'p \<Rightarrow> int"

record ('b, 'p, 'r) game =
  time :: int
  state :: state
  paused :: bool
  muted :: bool
  tetrion :: 'b
  spawnTimer :: int
  lockTimer :: int
  gravityTimer :: int
  progress :: 'p
  reward :: "'r reward_scheme option"

datatype error = TypeError

definition SPAWN_DELAY :: int where
  "SPAWN_DELAY = 100"

definition LOCK_DELAY :: int where
  "LOCK_DELAY = 1000"

subsection \<open>Constructor and getters\<close>

definition Game :: "('b, 'r) tetrion_class \<Rightarrow> ('p, 'r) progress_class \<Rightarrow> bool \<Rightarrow> ('b, 'p, 'r) game" where
  "Game T P m =
     \<lparr>time = 0, state = Spawning, paused = False, muted = m, tetrion = newTetrion T,
      spawnTimer = 0, lockTimer = 0, gravityTimer = 0, progress = newProgress P, reward = None\<rparr>"

definition level :: "('p, 'r) progress_class \<Rightarrow> ('b, 'p, 'r) game \<Rightarrow> int" where
  "level P g = progress_level P (progress g)"

definition isIdle :: "('b, 'p, 'r) game \<Rightarrow> bool" where
  "isIdle g = (state g = Idle)"

definition isSpawning :: "('b, 'p, 'r) game \<Rightarrow> bool" where
  "isSpawning g = (state g = Spawning)"

definition isLocking :: "('b, 'p, 'r) game \<Rightarrow> bool" where
  "isLocking g = (state g = Locking)"

definition over :: "('b, 'p, 'r) game \<Rightarrow> bool" where
  "over g = (state g = Finished)"

subsection \<open>The gravity delay\<close>

text \<open>
  \<^verbatim>\<open>Math.round((-333.54 * Math.log(this.level)) + 999.98)\<close>. \<^verbatim>\<open>Math.round\<close> rounds to
  the nearest integer, a half upwards. The logarithm is taken over the reals: the error
  of the double operations is not modelled. \<^verbatim>\<open>Math.log\<close> is \<^verbatim>\<open>-Infinity\<close> at 0 and
  \<^verbatim>\<open>NaN\<close> below, which makes the delay \<^verbatim>\<open>Infinity\<close> and \<^verbatim>\<open>NaN\<close> (in HOL
  \<open>ln 0 = 0\<close> and \<open>ln (- x) = ln x\<close>, so these two cases are written out).
\<close>

datatype jsnum = Num int | Infinity | NaN

definition Math_round :: "real \<Rightarrow> int" where
  "Math_round x = \<lfloor>x + 1 / 2\<rfloor>"

definition gravityDelay_of :: "int \<Rightarrow> jsnum" where
  "gravityDelay_of l =
     (if l < 0 then NaN
      else if l = 0 then Infinity
      else Num (Math_round ((- 333.54 * ln (real_of_int l)) + 999.98)))"

definition gravityDelay :: "('p, 'r) progress_class \<Rightarrow> ('b, 'p, 'r) game \<Rightarrow> jsnum" where
  "gravityDelay P g = gravityDelay_of (level P g)"

text \<open>The comparison \<^verbatim>\<open>x >= d\<close> of a finite number with the delay: false at \<^verbatim>\<open>Infinity\<close> and \<^verbatim>\<open>NaN\<close>.\<close>

fun js_ge :: "int \<Rightarrow> jsnum \<Rightarrow> bool" where
  "js_ge x (Num d) = (d \<le> x)"
| "js_ge x Infinity = False"
| "js_ge x NaN = False"

subsection \<open>Sounds\<close>

text \<open>
  \<^verbatim>\<open>playSound\<close> calls \<^verbatim>\<open>play\<close> at most once; the result is the list of the cues
  played. The \<^verbatim>\<open>switch\<close> has no default case: an unlisted name plays nothing.
\<close>

definition playSound :: "('b, 'p, 'r) game \<Rightarrow> string \<Rightarrow> bool \<Rightarrow> bool \<Rightarrow> string list" where
  "playSound g command clearLine levelUp =
     (if muted g then []
      else if levelUp then [''level-up'']
      else if clearLine then [''clear-line'']
      else if command = ''moveLeft'' \<or> command = ''moveRight''
            \<or> command = ''moveDown'' \<or> command = ''softDrop'' then [''move'']
      else if command = ''rotateLeft'' \<or> command = ''rotateRight'' then [''rotate'']
      else if command = ''firmDrop'' \<or> command = ''hardDrop'' then [''drop'']
      else if command = ''lock'' then [''lock'']
      else if command = ''hold'' then [''hold'']
      else if command = ''gameOver'' then [''game-over'']
      else [])"

subsection \<open>The step\<close>

text \<open>
  The argument \<^verbatim>\<open>command\<close> is a string or absent; the test \<^verbatim>\<open>&& command\<close> is its truth
  value, false for \<^verbatim>\<open>null\<close>, \<^verbatim>\<open>undefined\<close> and the empty string.
\<close>

fun truthy :: "string option \<Rightarrow> bool" where
  "truthy None = False"
| "truthy (Some c) = (c \<noteq> [])"

text \<open>
  \<^verbatim>\<open>tick\<close> returns the new game and the cues played, or raises. The local variables
  \<^verbatim>\<open>state\<close>, \<^verbatim>\<open>tetrion\<close>, \<^verbatim>\<open>spawnTimer\<close>, \<^verbatim>\<open>lockTimer\<close>, \<^verbatim>\<open>gravityTimer\<close>,
  \<^verbatim>\<open>progress\<close> and \<^verbatim>\<open>reward\<close> start as the fields of \<^verbatim>\<open>this\<close> and end in
  \<^verbatim>\<open>copy(this, {...})\<close>: they are the fields of the working copy \<open>n\<close>, in which only
  \<^verbatim>\<open>time\<close> is new at the start. Conditions and calls read \<^verbatim>\<open>this\<close>, which is \<open>g\<close>.
\<close>

definition tick ::
  "('b, 'r) tetrion_class \<Rightarrow> ('p, 'r) progress_class \<Rightarrow> ('b, 'p, 'r) game \<Rightarrow> int \<Rightarrow> string option
     \<Rightarrow> error + (('b, 'p, 'r) game \<times> string list)" where
  "tick T P g delta command =
     (if paused g then Inr (g, [])
      else
        let t = time g + delta;
            n = g\<lparr>time := t\<rparr>
        in
        if isSpawning g \<and> t - spawnTimer g \<ge> SPAWN_DELAY then
          (let tet = spawn T (tetrion g) in
           if tet = tetrion g
           then Inr (n\<lparr>tetrion := tet, state := Finished\<rparr>, playSound g ''gameOver'' False False)
           else Inr (n\<lparr>tetrion := tet, state := Idle, gravityTimer := t\<rparr>, []))
        else if isIdle g \<and> js_ge (t - gravityTimer g) (gravityDelay P g) then
          (let res = moveDown T (tetrion g);
               tet = res_tetrion res;
               n1 = n\<lparr>tetrion := tet, reward := Some (res_reward res), state := Idle, gravityTimer := t\<rparr>;
               cues = playSound g ''moveDown'' False False
           in if tet = tetrion g
              then Inr (n1\<lparr>state := Locking, lockTimer := t\<rparr>, cues)
              else Inr (n1, cues))
        else if isLocking g \<and> t - lockTimer g \<ge> LOCK_DELAY then
          (let res = lock T (tetrion g) (level P g);
               rew = res_reward res;
               oldProgress = progress g;
               prog = add P oldProgress rew;
               cues = playSound g ''lock'' (lines rew > 0)
                        (progress_level P prog > progress_level P oldProgress)
           in Inr (n\<lparr>tetrion := res_tetrion res, reward := Some rew, progress := prog,
                     state := Spawning, spawnTimer := t\<rparr>, cues))
        else if (isIdle g \<or> isLocking g) \<and> truthy command then
          (case command of
             None \<Rightarrow> Inr (n, [])
           | Some c \<Rightarrow>
              (case methods T c of
                 None \<Rightarrow> Inl TypeError
               | Some m \<Rightarrow>
                  (let res = m (tetrion g) (level P g);
                       oldTetrion = tetrion g;
                       tet = res_tetrion res;
                       rew = res_reward res;
                       oldProgress = progress g;
                       prog = add P oldProgress rew;
                       n1 = n\<lparr>tetrion := tet, reward := Some rew, progress := prog\<rparr>;
                       cues = (if tet \<noteq> oldTetrion
                               then playSound g c (lines rew > 0)
                                      (progress_level P prog > progress_level P oldProgress)
                               else [])
                   in if \<not> fallingPiece T tet
                      then Inr (n1\<lparr>state := Spawning, spawnTimer := t\<rparr>, cues)
                      else if isLocking g \<and> canMoveDown T tet
                      then Inr (n1\<lparr>state := Idle, gravityTimer := t\<rparr>, cues)
                      else Inr (n1, cues))))
        else Inr (n, []))"

definition pause :: "('b, 'p, 'r) game \<Rightarrow> ('b, 'p, 'r) game" where
  "pause g = g\<lparr>paused := \<not> paused g\<rparr>"

definition mute :: "('b, 'p, 'r) game \<Rightarrow> ('b, 'p, 'r) game" where
  "mute g = g\<lparr>muted := \<not> muted g\<rparr>"

subsection \<open>A small tetrion and a small progress\<close>

text \<open>
  An instance of the two parameters, on which \<open>tick\<close> runs at concrete inputs: a well
  of two columns and two rows, with a falling piece of one cell. A cell locked into a
  row whose other cell is filled clears the row. It has the nine commands: a rotation
  and a hold leave the piece of one cell as it is, a soft drop is a step down, a firm drop
  puts the piece on its column, a hard drop locks it there as well.
\<close>

record well =
  piece :: "(nat \<times> nat) option"
  col0 :: nat
  col1 :: nat

definition height :: "well \<Rightarrow> nat \<Rightarrow> nat" where
  "height w x = (if x = 0 then col0 w else col1 w)"

definition well_result :: "well \<Rightarrow> int \<Rightarrow> (well, unit) result" where
  "well_result w k = \<lparr>res_tetrion = w, res_reward = \<lparr>lines = k\<rparr>\<rparr>"

definition well_spawn :: "well \<Rightarrow> well" where
  "well_spawn w = (if piece w = None \<and> col0 w < 2 then w\<lparr>piece := Some (0, 1)\<rparr> else w)"

definition well_canMoveDown :: "well \<Rightarrow> bool" where
  "well_canMoveDown w = (case piece w of None \<Rightarrow> False | Some (x, h) \<Rightarrow> height w x < h)"

definition well_moveDown :: "well \<Rightarrow> (well, unit) result" where
  "well_moveDown w =
     (case piece w of
        None \<Rightarrow> well_result w 0
      | Some (x, h) \<Rightarrow>
          if height w x < h then well_result (w\<lparr>piece := Some (x, h - 1)\<rparr>) 0
          else well_result w 0)"

definition well_shift :: "nat \<Rightarrow> well \<Rightarrow> (well, unit) result" where
  "well_shift x' w =
     (case piece w of
        None \<Rightarrow> well_result w 0
      | Some (x, h) \<Rightarrow>
          if x \<noteq> x' \<and> height w x' \<le> h then well_result (w\<lparr>piece := Some (x', h)\<rparr>) 0
          else well_result w 0)"

definition well_lock :: "well \<Rightarrow> (well, unit) result" where
  "well_lock w =
     (case piece w of
        None \<Rightarrow> well_result w 0
      | Some (x, h) \<Rightarrow>
          let c0 = (if x = 0 then h + 1 else col0 w);
              c1 = (if x = 0 then col1 w else h + 1)
          in if 0 < c0 \<and> 0 < c1
             then well_result \<lparr>piece = None, col0 = c0 - 1, col1 = c1 - 1\<rparr> 1
             else well_result \<lparr>piece = None, col0 = c0, col1 = c1\<rparr> 0)"

definition well_hardDrop :: "well \<Rightarrow> (well, unit) result" where
  "well_hardDrop w =
     (case piece w of
        None \<Rightarrow> well_result w 0
      | Some (x, h) \<Rightarrow> well_lock (w\<lparr>piece := Some (x, height w x)\<rparr>))"

definition well_firmDrop :: "well \<Rightarrow> (well, unit) result" where
  "well_firmDrop w =
     (case piece w of
        None \<Rightarrow> well_result w 0
      | Some (x, h) \<Rightarrow> well_result (w\<lparr>piece := Some (x, height w x)\<rparr>) 0)"

definition well_others :: "string \<Rightarrow> (well \<Rightarrow> int \<Rightarrow> (well, unit) result) option" where
  "well_others c =
     (if c = ''moveLeft'' then Some (\<lambda>w l. well_shift 0 w)
      else if c = ''moveRight'' then Some (\<lambda>w l. well_shift 1 w)
      else if c = ''softDrop'' then Some (\<lambda>w l. well_moveDown w)
      else if c = ''rotateLeft'' \<or> c = ''rotateRight'' \<or> c = ''hold''
      then Some (\<lambda>w l. well_result w 0)
      else if c = ''firmDrop'' then Some (\<lambda>w l. well_firmDrop w)
      else if c = ''hardDrop'' then Some (\<lambda>w l. well_hardDrop w)
      else None)"

definition Well :: "(well, unit) tetrion_class" where
  "Well =
     \<lparr>newTetrion = \<lparr>piece = None, col0 = 0, col1 = 0\<rparr>,
      spawn_method = (\<lambda>w a. well_result (well_spawn w) 0),
      moveDown_method = (\<lambda>w a. well_moveDown w),
      lock = (\<lambda>w l. well_lock w),
      others = well_others,
      fallingPiece = (\<lambda>w. piece w \<noteq> None),
      canMoveDown = well_canMoveDown\<rparr>"

text \<open>The progress counts the cleared lines; the level rises every second line.\<close>

definition Lines :: "(nat, unit) progress_class" where
  "Lines =
     \<lparr>newProgress = 0,
      add = (\<lambda>p r. p + nat (lines r)),
      progress_level = (\<lambda>p. 1 + int (p div 2))\<rparr>"

text \<open>
  Three snapshots of a game on the well: after the first spawn, after the first step of
  gravity, and while a piece that rests on the left column is locking.
\<close>

definition well_idle :: "(well, nat, unit) game" where
  "well_idle =
     \<lparr>time = 100, state = Idle, paused = False, muted = False,
      tetrion = \<lparr>piece = Some (0, 1), col0 = 0, col1 = 0\<rparr>,
      spawnTimer = 0, lockTimer = 0, gravityTimer = 100, progress = 0, reward = None\<rparr>"

definition well_fallen :: "(well, nat, unit) game" where
  "well_fallen =
     \<lparr>time = 1100, state = Idle, paused = False, muted = False,
      tetrion = \<lparr>piece = Some (0, 0), col0 = 0, col1 = 0\<rparr>,
      spawnTimer = 0, lockTimer = 0, gravityTimer = 1100, progress = 0,
      reward = Some \<lparr>lines = 0\<rparr>\<rparr>"

definition well_locking :: "(well, nat, unit) game" where
  "well_locking =
     \<lparr>time = 2100, state = Locking, paused = False, muted = False,
      tetrion = \<lparr>piece = Some (0, 1), col0 = 1, col1 = 0\<rparr>,
      spawnTimer = 0, lockTimer = 2100, gravityTimer = 2100, progress = 0,
      reward = Some \<lparr>lines = 0\<rparr>\<rparr>"

section \<open>Auxiliary facts\<close>

lemmas well_defs = spawn_def moveDown_def methods_def Well_def Lines_def well_spawn_def
  well_moveDown_def well_shift_def well_lock_def well_hardDrop_def well_firmDrop_def
  well_others_def well_canMoveDown_def well_result_def
  height_def

lemmas delay_defs = gravityDelay_def level_def gravityDelay_of_def Math_round_def

subsection \<open>Bounds of the logarithm\<close>

text \<open>
  The partial sums of even length of the exponential series are lower bounds of \<open>exp\<close>,
  since the remainder of Maclaurin's formula is then non-negative; at \<open>0.6932\<close> and
  \<open>- 0.6931\<close> the sum of eight terms encloses \<open>ln 2\<close>.
\<close>

lemma exp_ge_Maclaurin8:
  fixes x :: real
  shows "(\<Sum>m<8. x ^ m / fact m) \<le> exp x"
proof -
  obtain t where "exp x = (\<Sum>m<8. x ^ m / fact m) + (exp t / fact 8) * x ^ 8"
    using Maclaurin_exp_le [of x 8] by blast
  moreover have "0 \<le> (exp t / fact 8) * x ^ 8"
    by (intro mult_nonneg_nonneg) simp_all
  ultimately show ?thesis by linarith
qed

lemma Maclaurin8_unfold:
  fixes x :: real
  shows "(\<Sum>m<8. x ^ m / fact m)
    = 1 + x + x^2/2 + x^3/6 + x^4/24 + x^5/120 + x^6/720 + x^7/5040"
  by (simp add: numeral_eq_Suc fact_numeral)

lemma ln2_upper: "ln (2::real) < 0.6932"
proof -
  have "(2::real) < (\<Sum>m<8. (0.6932::real) ^ m / fact m)"
    unfolding Maclaurin8_unfold by (simp add: power_numeral_reduce field_simps)
  also have "\<dots> \<le> exp 0.6932" by (rule exp_ge_Maclaurin8)
  finally have "exp (ln 2) < exp (0.6932::real)" by simp
  then show ?thesis by (simp only: exp_less_cancel_iff)
qed

lemma ln2_lower: "0.6931 < ln (2::real)"
proof -
  have "(1/2::real) < (\<Sum>m<8. (- 0.6931::real) ^ m / fact m)"
    unfolding Maclaurin8_unfold by (simp add: power_numeral_reduce field_simps)
  also have "\<dots> \<le> exp (- 0.6931)" by (rule exp_ge_Maclaurin8)
  finally have "exp (0.6931::real) < 2"
    by (simp add: exp_minus field_simps)
  then have "exp (0.6931::real) < exp (ln 2)" by simp
  then show ?thesis by (simp only: exp_less_cancel_iff)
qed

lemma ln_1024: "ln (1024::real) = 10 * ln 2"
proof -
  show ?thesis using ln_realpow [of "2::real" 10] by simp
qed

lemma ln_1025_bounds: "10 * ln 2 < ln (1025::real)" "ln (1025::real) \<le> 10 * ln 2 + 1 / 1024"
proof -
  have split: "ln (1025::real) = ln 1024 + ln (1 + 1 / 1024)"
  proof -
    have "(1025::real) = 1024 * (1 + 1 / 1024)" by simp
    then have "ln (1025::real) = ln (1024 * (1 + 1 / 1024))" by simp
    also have "\<dots> = ln 1024 + ln (1 + 1 / 1024)"
      by (rule ln_mult_pos) simp_all
    finally show ?thesis .
  qed
  have "0 < ln (1 + 1 / 1024 :: real)" by (rule ln_gt_zero) simp
  with split ln_1024 show "10 * ln 2 < ln (1025::real)" by simp
  have "ln (1 + 1 / 1024 :: real) \<le> 1 / 1024" by (rule ln_add_one_self_le_self) simp
  with split ln_1024 show "ln (1025::real) \<le> 10 * ln 2 + 1 / 1024" by simp
qed

lemma ln_step:
  fixes a b :: int
  assumes "1 \<le> a" and "a < b"
  shows "ln (real_of_int a) + 1 / real_of_int b \<le> ln (real_of_int b)"
proof -
  have b: "0 < real_of_int b" and b1: "0 < real_of_int (b - 1)" using assms by simp_all
  have "ln (real_of_int a) \<le> ln (real_of_int (b - 1))"
    using assms by (subst ln_le_cancel_iff) simp_all
  moreover have "ln (real_of_int (b - 1) / real_of_int b) \<le> real_of_int (b - 1) / real_of_int b - 1"
    using b b1 by (intro ln_le_minus_one) simp
  moreover have "ln (real_of_int (b - 1) / real_of_int b) = ln (real_of_int (b - 1)) - ln (real_of_int b)"
    using b b1 by (intro ln_divide_pos)
  moreover have "real_of_int (b - 1) / real_of_int b - 1 = - (1 / real_of_int b)"
    using b by (simp add: field_simps)
  ultimately show ?thesis by linarith
qed

subsection \<open>Rounding and the delay at four levels\<close>

lemma Math_round_eqI: "real_of_int k - 1 / 2 \<le> x \<Longrightarrow> x < real_of_int k + 1 / 2 \<Longrightarrow> Math_round x = k"
  unfolding Math_round_def by (rule floor_unique) simp_all

lemma Math_round_mono: "x \<le> y \<Longrightarrow> Math_round x \<le> Math_round y"
  unfolding Math_round_def by (intro floor_mono) simp

lemma Math_round_strict: "x + 1 \<le> y \<Longrightarrow> Math_round x < Math_round y"
proof -
  assume "x + 1 \<le> y"
  then have "Math_round (x + 1) \<le> Math_round y" by (rule Math_round_mono)
  moreover have "Math_round (x + 1) = Math_round x + 1"
    unfolding Math_round_def using floor_add_int [of "x + 1 / 2" 1] by (simp add: add.assoc)
  ultimately show ?thesis by simp
qed

lemma gravityDelay_of_1: "gravityDelay_of 1 = Num 1000"
  by (simp add: gravityDelay_of_def Math_round_def)

lemma gravityDelay_of_2: "gravityDelay_of 2 = Num 769"
proof -
  have "Math_round ((- 333.54 * ln (2::real)) + 999.98) = 769"
    using ln2_lower ln2_upper by (intro Math_round_eqI) simp_all
  then show ?thesis by (simp add: gravityDelay_of_def)
qed

lemma gravityDelay_of_1024: "gravityDelay_of 1024 = Num (- 1312)"
proof -
  have "Math_round ((- 333.54 * ln (1024::real)) + 999.98) = - 1312"
    using ln2_lower ln2_upper unfolding ln_1024 by (intro Math_round_eqI) simp_all
  then show ?thesis by (simp add: gravityDelay_of_def)
qed

lemma gravityDelay_of_1025: "gravityDelay_of 1025 = Num (- 1312)"
proof -
  have "Math_round ((- 333.54 * ln (1025::real)) + 999.98) = - 1312"
    using ln2_lower ln2_upper ln_1025_bounds by (intro Math_round_eqI) simp_all
  then show ?thesis by (simp add: gravityDelay_of_def)
qed

section \<open>Properties\<close>

subsection \<open>Spawning\<close>

text \<open>
  C1. In state Spawning and not paused, once \<open>time + delta - spawnTimer \<ge> 100\<close> the
  tetrion is asked to spawn. If it returns itself (no change), the new state is Finished
  and the cue \<open>game-over\<close> is played unless the game is muted; otherwise the new state
  is Idle and \<open>gravityTimer\<close> is the new time \<open>time + delta\<close>. From the initial
  snapshot, \<open>tick(99, null)\<close> leaves the state Spawning, and \<open>tick(100, null)\<close> with
  a successful spawn gives Idle with \<open>gravityTimer = 100\<close>.
\<close>

theorem tick_spawn_completion:
  "(state g = Spawning \<and> \<not> paused g \<and> time g + delta - spawnTimer g \<ge> 100 \<longrightarrow>
      tick T P g delta command =
        (if spawn T (tetrion g) = tetrion g
         then Inr (g\<lparr>time := time g + delta, state := Finished\<rparr>,
                   if muted g then [] else [''game-over''])
         else Inr (g\<lparr>time := time g + delta, tetrion := spawn T (tetrion g), state := Idle,
                     gravityTimer := time g + delta\<rparr>, [])))
   \<and> tick T P (Game T P m) 99 None = Inr ((Game T P m)\<lparr>time := 99\<rparr>, [])
   \<and> state ((Game T P m)\<lparr>time := 99\<rparr>) = Spawning
   \<and> (spawn T (newTetrion T) \<noteq> newTetrion T \<longrightarrow>
        tick T P (Game T P m) 100 None =
          Inr ((Game T P m)\<lparr>time := 100, tetrion := spawn T (newTetrion T), state := Idle,
                 gravityTimer := 100\<rparr>, []))"
  by (simp add: tick_def Game_def isSpawning_def isIdle_def isLocking_def SPAWN_DELAY_def
      playSound_def Let_def)

text \<open>On the well: the first spawn succeeds; with the left column full it fails.\<close>

theorem tick_spawn_completion_witness:
  "state (Game Well Lines False) = Spawning \<and> \<not> paused (Game Well Lines False)
   \<and> time (Game Well Lines False) + 100 - spawnTimer (Game Well Lines False) \<ge> 100
   \<and> spawn Well (newTetrion Well) \<noteq> newTetrion Well
   \<and> tick Well Lines (Game Well Lines False) 100 None =
       Inr ((Game Well Lines False)\<lparr>time := 100,
              tetrion := \<lparr>piece = Some (0, 1), col0 = 0, col1 = 0\<rparr>, state := Idle,
              gravityTimer := 100\<rparr>, [])
   \<and> tick Well Lines ((Game Well Lines False)\<lparr>tetrion := \<lparr>piece = None, col0 = 2, col1 = 0\<rparr>\<rparr>) 100 None =
       Inr ((Game Well Lines False)\<lparr>time := 100,
              tetrion := \<lparr>piece = None, col0 = 2, col1 = 0\<rparr>, state := Finished\<rparr>,
            [''game-over''])"
  using tick_spawn_completion [of "Game Well Lines False" 100 Well Lines None False]
    tick_spawn_completion [of "(Game Well Lines False)\<lparr>tetrion := \<lparr>piece = None, col0 = 2, col1 = 0\<rparr>\<rparr>"
      100 Well Lines None False]
  by (simp add: Game_def well_defs)

subsection \<open>Gravity\<close>

text \<open>
  C2. In state Idle and not paused, once \<open>time + delta - gravityTimer \<ge> gravityDelay\<close>
  the tetrion is asked to move down; the cue \<open>move\<close> is played whether or not the move
  succeeded, unless the game is muted; \<open>gravityTimer\<close> is the new time. If the tetrion
  returns itself, the new state is Locking and \<open>lockTimer\<close> is the new time; otherwise
  the state stays Idle.
\<close>

theorem tick_gravity:
  assumes "state g = Idle" and "\<not> paused g"
    and "js_ge (time g + delta - gravityTimer g) (gravityDelay P g)"
  shows "tick T P g delta command =
     (let t = time g + delta; res = moveDown T (tetrion g)
      in if res_tetrion res = tetrion g
         then Inr (g\<lparr>time := t, reward := Some (res_reward res), gravityTimer := t,
                     state := Locking, lockTimer := t\<rparr>,
                   if muted g then [] else [''move''])
         else Inr (g\<lparr>time := t, tetrion := res_tetrion res, reward := Some (res_reward res),
                     gravityTimer := t, state := Idle\<rparr>,
                   if muted g then [] else [''move'']))"
  using assms
  by (simp add: tick_def isSpawning_def isIdle_def playSound_def Let_def)

text \<open>On the well: the piece falls one row, and a second later it is blocked by the floor.\<close>

theorem tick_gravity_witness:
  "state well_idle = Idle \<and> \<not> paused well_idle
   \<and> js_ge (time well_idle + 1000 - gravityTimer well_idle) (gravityDelay Lines well_idle)
   \<and> tick Well Lines well_idle 1000 None = Inr (well_fallen, [''move''])
   \<and> tick Well Lines well_fallen 1000 None =
       Inr (well_fallen\<lparr>time := 2100, gravityTimer := 2100, state := Locking, lockTimer := 2100\<rparr>,
            [''move''])"
  using tick_gravity [of well_idle 1000 Lines Well None]
    tick_gravity [of well_fallen 1000 Lines Well None]
  by (simp add: well_idle_def well_fallen_def well_defs delay_defs)

subsection \<open>Locking\<close>

text \<open>
  C3. In state Locking and not paused, once \<open>time + delta - lockTimer \<ge> 1000\<close> the
  tetrion is asked to lock at the current level, the reward is added to the progress, and
  exactly one cue is played, chosen in the order \<open>level-up\<close>, \<open>clear-line\<close>,
  \<open>lock\<close> (none when muted); the new state is Spawning and \<open>spawnTimer\<close> is the new
  time.
\<close>

theorem tick_lock_completion:
  assumes "state g = Locking" and "\<not> paused g" and "time g + delta - lockTimer g \<ge> 1000"
  shows "tick T P g delta command =
     (let t = time g + delta;
          res = lock T (tetrion g) (level P g);
          prog = add P (progress g) (res_reward res)
      in Inr (g\<lparr>time := t, tetrion := res_tetrion res, reward := Some (res_reward res),
                progress := prog, state := Spawning, spawnTimer := t\<rparr>,
              if muted g then []
              else if progress_level P prog > progress_level P (progress g) then [''level-up'']
              else if lines (res_reward res) > 0 then [''clear-line'']
              else [''lock'']))"
  using assms
  by (simp add: tick_def isSpawning_def isIdle_def isLocking_def LOCK_DELAY_def playSound_def Let_def)

text \<open>On the well: a plain lock, a lock that clears a line, and one that raises the level.\<close>

theorem tick_lock_completion_witness:
  "state well_locking = Locking \<and> \<not> paused well_locking
   \<and> time well_locking + 1000 - lockTimer well_locking \<ge> 1000
   \<and> tick Well Lines well_locking 1000 (Some ''moveLeft'') =
       Inr (well_locking\<lparr>time := 3100, tetrion := \<lparr>piece = None, col0 = 2, col1 = 0\<rparr>,
              state := Spawning, spawnTimer := 3100\<rparr>, [''lock''])
   \<and> tick Well Lines (well_locking\<lparr>tetrion := \<lparr>piece = Some (1, 0), col0 = 1, col1 = 0\<rparr>\<rparr>) 1000 None =
       Inr (well_locking\<lparr>time := 3100, tetrion := \<lparr>piece = None, col0 = 0, col1 = 0\<rparr>,
              reward := Some \<lparr>lines = 1\<rparr>, progress := 1,
              state := Spawning, spawnTimer := 3100\<rparr>, [''clear-line''])
   \<and> tick Well Lines (well_locking\<lparr>tetrion := \<lparr>piece = Some (1, 0), col0 = 1, col1 = 0\<rparr>,
          progress := 1\<rparr>) 1000 None =
       Inr (well_locking\<lparr>time := 3100, tetrion := \<lparr>piece = None, col0 = 0, col1 = 0\<rparr>,
              reward := Some \<lparr>lines = 1\<rparr>, progress := 2,
              state := Spawning, spawnTimer := 3100\<rparr>, [''level-up''])"
  using tick_lock_completion [of well_locking 1000 Well Lines "Some ''moveLeft''"]
    tick_lock_completion [of "well_locking\<lparr>tetrion := \<lparr>piece = Some (1, 0), col0 = 1, col1 = 0\<rparr>\<rparr>"
      1000 Well Lines None]
    tick_lock_completion [of "well_locking\<lparr>tetrion := \<lparr>piece = Some (1, 0), col0 = 1, col1 = 0\<rparr>,
      progress := 1\<rparr>" 1000 Well Lines None]
  by (simp add: well_locking_def well_defs level_def)

subsection \<open>A command while locking\<close>

text \<open>
  C4. In state Locking and not paused, before the lock delay has elapsed, a command that
  the tetrion has is dispatched. If the resulting tetrion has a falling piece that can
  move down, the new state is Idle and \<open>gravityTimer\<close> is the new time; if it has no
  falling piece, the new state is Spawning and \<open>spawnTimer\<close> is the new time; otherwise
  the state is unchanged.
\<close>

theorem tick_command_while_locking:
  assumes "state g = Locking" and "\<not> paused g" and "time g + delta - lockTimer g < 1000"
    and "c \<noteq> []" and "methods T c = Some m"
  shows "tick T P g delta (Some c) =
     (let t = time g + delta;
          res = m (tetrion g) (level P g);
          prog = add P (progress g) (res_reward res);
          n = g\<lparr>time := t, tetrion := res_tetrion res, reward := Some (res_reward res),
                progress := prog\<rparr>;
          cues = (if res_tetrion res \<noteq> tetrion g
                  then playSound g c (lines (res_reward res) > 0)
                         (progress_level P prog > progress_level P (progress g))
                  else [])
      in if fallingPiece T (res_tetrion res) \<and> canMoveDown T (res_tetrion res)
         then Inr (n\<lparr>state := Idle, gravityTimer := t\<rparr>, cues)
         else if \<not> fallingPiece T (res_tetrion res)
         then Inr (n\<lparr>state := Spawning, spawnTimer := t\<rparr>, cues)
         else Inr (n, cues))"
  using assms
  by (simp add: tick_def isSpawning_def isIdle_def isLocking_def LOCK_DELAY_def Let_def)

text \<open>On the well: the piece is moved off the left column and can fall again.\<close>

theorem tick_command_while_locking_witness:
  "state well_locking = Locking \<and> \<not> paused well_locking
   \<and> time well_locking + 16 - lockTimer well_locking < 1000
   \<and> ''moveRight'' \<noteq> [] \<and> methods Well ''moveRight'' = Some (\<lambda>w l. well_shift 1 w)
   \<and> tick Well Lines well_locking 16 (Some ''moveRight'') =
       Inr (well_locking\<lparr>time := 2116, tetrion := \<lparr>piece = Some (1, 1), col0 = 1, col1 = 0\<rparr>,
              state := Idle, gravityTimer := 2116\<rparr>, [''move''])"
  using tick_command_while_locking [of well_locking 16 "''moveRight''" Well "\<lambda>w l. well_shift 1 w" Lines]
  by (simp add: well_locking_def well_defs level_def playSound_def)

subsection \<open>Pause\<close>

text \<open>
  C5. A paused game is returned as it is: for every delta and every command, \<open>tick\<close>
  returns the input snapshot itself (so every field is equal, the time included) and
  plays no cue.
\<close>

theorem tick_paused_unchanged:
  assumes "paused g"
  shows "tick T P g delta command = Inr (g, [])"
  using assms by (simp add: tick_def)

theorem tick_paused_unchanged_witness:
  "paused (pause (Game Well Lines False))
   \<and> tick Well Lines (pause (Game Well Lines False)) 100 (Some ''moveLeft'')
       = Inr (pause (Game Well Lines False), [])"
  using tick_paused_unchanged [of "pause (Game Well Lines False)" Well Lines 100 "Some ''moveLeft''"]
  by (simp add: pause_def Game_def)

subsection \<open>The finished game\<close>

text \<open>
  C6. Finished is absorbing: from a snapshot in state Finished, \<open>tick\<close> returns (it
  does not raise) a snapshot in state Finished, for every delta and command, and so do
  \<open>pause\<close> and \<open>mute\<close>.
\<close>

theorem finished_absorbing:
  assumes "state g = Finished"
  shows "(case tick T P g delta command of
            Inl e \<Rightarrow> False
          | Inr (g', cues) \<Rightarrow> state g' = Finished)
         \<and> state (pause g) = Finished \<and> state (mute g) = Finished"
  using assms
  by (simp add: tick_def isSpawning_def isIdle_def isLocking_def pause_def mute_def Let_def)

theorem finished_absorbing_witness:
  "state ((Game Well Lines False)\<lparr>state := Finished\<rparr>) = Finished
   \<and> tick Well Lines ((Game Well Lines False)\<lparr>state := Finished\<rparr>) 5000 (Some ''hardDrop'')
       = Inr ((Game Well Lines False)\<lparr>state := Finished, time := 5000\<rparr>, [])
   \<and> state (pause ((Game Well Lines False)\<lparr>state := Finished\<rparr>)) = Finished
   \<and> state (mute ((Game Well Lines False)\<lparr>state := Finished\<rparr>)) = Finished"
  using finished_absorbing [of "(Game Well Lines False)\<lparr>state := Finished\<rparr>" Well Lines 5000 "Some ''hardDrop''"]
  by (simp add: Game_def tick_def isSpawning_def isIdle_def isLocking_def Let_def)

text \<open>
  C10. In state Finished and not paused, \<open>tick\<close> still advances the clock: the result
  is the input with \<open>time + delta\<close> for \<open>time\<close> and every other field as it was, and
  no cue is played.
\<close>

theorem tick_finished_advances_time_only:
  assumes "state g = Finished" and "\<not> paused g"
  shows "tick T P g delta command = Inr (g\<lparr>time := time g + delta\<rparr>, [])"
  using assms
  by (simp add: tick_def isSpawning_def isIdle_def isLocking_def Let_def)

theorem tick_finished_advances_time_only_witness:
  "state ((Game Well Lines False)\<lparr>state := Finished\<rparr>) = Finished
   \<and> \<not> paused ((Game Well Lines False)\<lparr>state := Finished\<rparr>)
   \<and> tick Well Lines ((Game Well Lines False)\<lparr>state := Finished\<rparr>) 5000 (Some ''hardDrop'')
       = Inr ((Game Well Lines False)\<lparr>state := Finished, time := 5000\<rparr>, [])"
  using tick_finished_advances_time_only [of "(Game Well Lines False)\<lparr>state := Finished\<rparr>" Well Lines 5000 "Some ''hardDrop''"]
  by (simp add: Game_def)

subsection \<open>The reward\<close>

text \<open>
  C7, as stated, fails: a tick in which no branch fires does not reset the reward. On the
  well, the first step of gravity stores the reward of the move, and the tick of one
  millisecond that follows fires no branch and returns that reward.
\<close>

theorem reward_after_noop_counterexample:
  "tick Well Lines (Game Well Lines False) 100 None = Inr (well_idle, [])
   \<and> tick Well Lines well_idle 1000 None = Inr (well_fallen, [''move''])
   \<and> \<not> paused well_fallen
   \<and> \<not> isSpawning well_fallen \<and> \<not> isLocking well_fallen
   \<and> \<not> js_ge (time well_fallen + 1 - gravityTimer well_fallen) (gravityDelay Lines well_fallen)
   \<and> tick Well Lines well_fallen 1 None = Inr (well_fallen\<lparr>time := 1101\<rparr>, [])
   \<and> reward (well_fallen\<lparr>time := 1101\<rparr>) = Some \<lparr>lines = 0\<rparr>
   \<and> reward (well_fallen\<lparr>time := 1101\<rparr>) \<noteq> None"
  by (simp add: tick_def Game_def well_idle_def well_fallen_def well_defs delay_defs
      isSpawning_def isIdle_def isLocking_def SPAWN_DELAY_def LOCK_DELAY_def playSound_def)

text \<open>
  C7, amended. The reward is \<open>null\<close> right after construction; a tick that is not
  paused and in which no branch fires returns the input with only the time advanced, so
  the reward is the one of the input snapshot.
\<close>

theorem reward_after_construction_and_noop:
  "reward (Game T P m) = None
   \<and> (\<not> paused g
       \<and> \<not> (state g = Spawning \<and> time g + delta - spawnTimer g \<ge> 100)
       \<and> \<not> (state g = Idle \<and> js_ge (time g + delta - gravityTimer g) (gravityDelay P g))
       \<and> \<not> (state g = Locking \<and> time g + delta - lockTimer g \<ge> 1000)
       \<and> \<not> ((state g = Idle \<or> state g = Locking) \<and> truthy command)
      \<longrightarrow> tick T P g delta command = Inr (g\<lparr>time := time g + delta\<rparr>, [])
          \<and> reward (g\<lparr>time := time g + delta\<rparr>) = reward g)"
  by (auto simp: tick_def Game_def isSpawning_def isIdle_def isLocking_def SPAWN_DELAY_def
      LOCK_DELAY_def Let_def)

theorem reward_after_construction_and_noop_witness:
  "reward (Game Well Lines False) = None
   \<and> \<not> paused well_fallen
   \<and> \<not> (state well_fallen = Spawning \<and> time well_fallen + 1 - spawnTimer well_fallen \<ge> 100)
   \<and> \<not> (state well_fallen = Idle
          \<and> js_ge (time well_fallen + 1 - gravityTimer well_fallen) (gravityDelay Lines well_fallen))
   \<and> \<not> (state well_fallen = Locking \<and> time well_fallen + 1 - lockTimer well_fallen \<ge> 1000)
   \<and> \<not> ((state well_fallen = Idle \<or> state well_fallen = Locking) \<and> truthy None)
   \<and> tick Well Lines well_fallen 1 None = Inr (well_fallen\<lparr>time := 1101\<rparr>, [])
   \<and> reward (well_fallen\<lparr>time := 1101\<rparr>) = reward well_fallen"
  using reward_after_construction_and_noop
      [where g = well_fallen and delta = 1 and command = None and T = Well and P = Lines]
  by (simp add: well_fallen_def delay_defs Lines_def)

subsection \<open>The gravity delay\<close>

text \<open>
  C8, as stated, fails: the delay is not strictly decreasing over all levels from 1 on.
  Levels 1024 and 1025 have the same delay, since the two values before rounding differ by
  less than one third.
\<close>

theorem gravityDelay_not_strictly_decreasing:
  "(1::int) \<le> 1024 \<and> (1024::int) < 1025
   \<and> gravityDelay_of 1024 = Num (- 1312) \<and> gravityDelay_of 1025 = Num (- 1312)"
  by (simp add: gravityDelay_of_1024 gravityDelay_of_1025)

text \<open>
  C8, amended. The delay is 1000 at level 1 and 769 at level 2; over integer levels from
  1 on it never increases with the level, and it strictly decreases as long as the higher
  level is at most 333.
\<close>

theorem gravityDelay_values_and_monotone:
  "gravityDelay_of 1 = Num 1000 \<and> gravityDelay_of 2 = Num 769
   \<and> (1 \<le> a \<and> a < b \<longrightarrow>
        (\<exists>x y. gravityDelay_of a = Num x \<and> gravityDelay_of b = Num y \<and> y \<le> x
               \<and> (b \<le> 333 \<longrightarrow> y < x)))"
proof (intro conjI impI)
  show "gravityDelay_of 1 = Num 1000" by (rule gravityDelay_of_1)
  show "gravityDelay_of 2 = Num 769" by (rule gravityDelay_of_2)
next
  assume ab: "1 \<le> a \<and> a < b"
  define f where "f l = (- 333.54 * ln (real_of_int l)) + 999.98" for l :: int
  have ga: "gravityDelay_of a = Num (Math_round (f a))"
    and gb: "gravityDelay_of b = Num (Math_round (f b))"
    using ab by (simp_all add: gravityDelay_of_def f_def)
  have step: "ln (real_of_int a) + 1 / real_of_int b \<le> ln (real_of_int b)"
    using ab by (intro ln_step) simp_all
  have bpos: "0 < real_of_int b" using ab by simp
  then have "0 < 1 / real_of_int b" by simp
  with step have "ln (real_of_int a) \<le> ln (real_of_int b)" by linarith
  then have "f b \<le> f a" by (simp add: f_def)
  then have mono: "Math_round (f b) \<le> Math_round (f a)" by (rule Math_round_mono)
  have strict: "Math_round (f b) < Math_round (f a)" if "b \<le> 333"
  proof -
    have "real_of_int b \<le> 333" using that by simp
    with bpos have "1 / 333 \<le> 1 / real_of_int b" by (simp add: field_simps)
    with step have "ln (real_of_int a) + 1 / 333 \<le> ln (real_of_int b)" by linarith
    then have "f b + 1 \<le> f a" by (simp add: f_def)
    then show ?thesis by (rule Math_round_strict)
  qed
  show "\<exists>x y. gravityDelay_of a = Num x \<and> gravityDelay_of b = Num y \<and> y \<le> x
               \<and> (b \<le> 333 \<longrightarrow> y < x)"
    using ga gb mono strict by blast
qed

theorem gravityDelay_values_and_monotone_witness:
  "(1::int) \<le> 1 \<and> (1::int) < 2 \<and> (2::int) \<le> 333
   \<and> gravityDelay_of 1 = Num 1000 \<and> gravityDelay_of 2 = Num 769 \<and> (769::int) < 1000"
  using gravityDelay_values_and_monotone [of 1 2] by simp

subsection \<open>Unknown commands\<close>




end
